theory Spec2Isabelle
  imports Main "HOL-Library.Sublist"
begin

section \<open>The rule \<open>eslint-plugin-angular-template-consistent-this\<close>\<close>

text \<open>
  A shallow embedding of \<^verbatim>\<open>src/lib/rules/eslint-plugin-angular-template-consistent-this.ts\<close>.
  The rule listener keeps two arrays (\<^verbatim>\<open>variables\<close>, \<^verbatim>\<open>templates\<close>) in its closure and
  reports to the host through \<^verbatim>\<open>context.report\<close>. Both arrays and the list of reports made
  so far are the fields of one state record that every visitor takes and returns. A
  JavaScript exception is the left summand of the result.
\<close>

subsection \<open>Data\<close>

datatype js_error = TypeError

text \<open>The option values \<^verbatim>\<open>"explicit"\<close> and \<^verbatim>\<open>"implicit"\<close> (the enum of the rule's schema).\<close>

datatype Mode = Explicit | Implicit

record RuleOptions =
  properties :: Mode
  variables :: Mode
  templateReferences :: Mode

definition defaultOptions :: RuleOptions where
  "defaultOptions =
     \<lparr>properties = Explicit, variables = Implicit, templateReferences = Implicit\<rparr>"

text \<open>The six keys of \<^verbatim>\<open>meta.messages\<close>.\<close>

datatype MessageIds =
    ExplicitThisProperties
  | ImplicitThisProperties
  | ExplicitThisVariables
  | ImplicitThisVariables
  | ExplicitThisTemplateReferences
  | ImplicitThisTemplateReferences

text \<open>
  Modelled from the spec: the table \<^verbatim>\<open>MESSAGE_IDS\<close> of \<^verbatim>\<open>../message-ids\<close> is not part of
  the sources at hand. The spec names six message identifiers, explicit/implicit times
  properties, variables, templateReferences; \<^verbatim>\<open>MESSAGE_IDS.variables.explicit\<close> is the key
  \<^verbatim>\<open>explicitThisVariables\<close> of \<^verbatim>\<open>meta.messages\<close>, and so on.
\<close>

fun MESSAGE_IDS_properties :: "Mode \<Rightarrow> MessageIds" where
  "MESSAGE_IDS_properties Explicit = ExplicitThisProperties"
| "MESSAGE_IDS_properties Implicit = ImplicitThisProperties"

fun MESSAGE_IDS_variables :: "Mode \<Rightarrow> MessageIds" where
  "MESSAGE_IDS_variables Explicit = ExplicitThisVariables"
| "MESSAGE_IDS_variables Implicit = ImplicitThisVariables"

fun MESSAGE_IDS_templateReferences :: "Mode \<Rightarrow> MessageIds" where
  "MESSAGE_IDS_templateReferences Explicit = ExplicitThisTemplateReferences"
| "MESSAGE_IDS_templateReferences Implicit = ImplicitThisTemplateReferences"

text \<open>Of a variable and of a reference the rule reads the name only.\<close>

record VariableAst =
  name :: string

record ReferenceAst =
  name :: string

record EmbeddedTemplateAst =
  variables :: "VariableAst list"
  references :: "ReferenceAst list"

text \<open>The element visitor tests \<^verbatim>\<open>node.references\<close> before it reads its length.\<close>

record ElementAst =
  references :: "ReferenceAst list option"

text \<open>The receiver of a property read: no receiver, \<^verbatim>\<open>this\<close>, or another expression.\<close>

datatype Receiver = ImplicitReceiver | ThisReceiver | OtherReceiver

record AbsoluteSourceSpan =
  start :: nat
  end' :: nat

text \<open>
  The ancestors of a property read. \<^verbatim>\<open>node.parent.parent.name\<close> reads through two links;
  either link may be missing at run time, and the node two levels up has a name only when
  it is a bound attribute (an interpolation has none).
\<close>

record Named =
  name :: "string option"

record WithParent =
  parent :: "Named option"

record PropertyReadWithParent =
  name :: string
  receiver :: Receiver
  sourceSpan :: AbsoluteSourceSpan
  parent :: "WithParent option"

text \<open>Positions and the two position services of the host's \<^verbatim>\<open>SourceCode\<close> object.\<close>

record Position =
  line :: nat
  column :: nat

record SourceLocation =
  loc_start :: Position
  loc_end :: Position

record SourceCode =
  getLocFromIndex :: "nat \<Rightarrow> Position"
  getIndexFromLoc :: "Position \<Rightarrow> nat"

text \<open>The call that the \<^verbatim>\<open>fix\<close> callback makes on the host's fixer.\<close>

datatype RuleFix =
    InsertTextBeforeRange "nat \<times> nat" string
  | ReplaceTextRange "nat \<times> nat" string

record ReportDescriptor =
  messageId :: MessageIds
  data_prop :: string
  loc :: SourceLocation
  fix' :: RuleFix

text \<open>The closure of \<^verbatim>\<open>createRuleListener\<close> and the reports received by the host.\<close>

record listener =
  variables :: "VariableAst list"
  templates :: "ReferenceAst list"
  reports :: "ReportDescriptor list"

subsection \<open>Constants\<close>

definition SAFE_STRUCTURAL_DIRECTIVES :: "string list" where
  "SAFE_STRUCTURAL_DIRECTIVES = [''ngIfThen'', ''ngIfElse'', ''ngTemplateOutlet'']"

definition SAFE_GLOBALS :: "string list" where
  "SAFE_GLOBALS = [''$event'']"

subsection \<open>Helpers\<close>

text \<open>
  Modelled from the spec: \<^verbatim>\<open>Utils.isImplicitReceiver\<close> and \<^verbatim>\<open>Utils.isExplicitReceiver\<close>
  of \<^verbatim>\<open>../utils\<close> are not part of the sources at hand. The spec gives a read one of three
  receiver forms: implicit (no qualifier), explicit (qualifier present), other.
\<close>

definition isImplicitReceiver :: "PropertyReadWithParent \<Rightarrow> bool" where
  "isImplicitReceiver node = (receiver node = ImplicitReceiver)"

definition isExplicitReceiver :: "PropertyReadWithParent \<Rightarrow> bool" where
  "isExplicitReceiver node = (receiver node = ThisReceiver)"

text \<open>\<^verbatim>\<open>Array.prototype.includes\<close> on an array of strings; \<^verbatim>\<open>undefined\<close> is in none.\<close>

definition array_includes :: "string list \<Rightarrow> string option \<Rightarrow> bool" where
  "array_includes xs v = (case v of None \<Rightarrow> False | Some s \<Rightarrow> s \<in> set xs)"

text \<open>
  The property chain \<^verbatim>\<open>node.parent.parent.name\<close>: reading a property of \<^verbatim>\<open>undefined\<close>
  throws a \<^verbatim>\<open>TypeError\<close>; reading a property that an object lacks gives \<^verbatim>\<open>undefined\<close>.
\<close>

definition parent_parent_name :: "PropertyReadWithParent \<Rightarrow> js_error + string option" where
  "parent_parent_name node =
     (case PropertyReadWithParent.parent node of
        None \<Rightarrow> Inl TypeError
      | Some p \<Rightarrow>
          (case WithParent.parent p of
             None \<Rightarrow> Inl TypeError
           | Some g \<Rightarrow> Inr (Named.name g)))"

subsection \<open>Reporting\<close>

text \<open>
  \<^verbatim>\<open>context.report\<close> hands one descriptor to the host: the report is appended to the
  reports of the state. The boolean \<^verbatim>\<open>explicit\<close> chooses the call that the fix makes.
\<close>

definition reportError ::
  "SourceCode \<Rightarrow> bool \<Rightarrow> MessageIds \<Rightarrow> PropertyReadWithParent \<Rightarrow> listener \<Rightarrow> listener" where
  "reportError sourceCode explicit msgId node st =
     (let location = \<lparr>loc_start = getLocFromIndex sourceCode (start (sourceSpan node)),
                      loc_end = getLocFromIndex sourceCode (end' (sourceSpan node))\<rparr>;
          startIndex = getIndexFromLoc sourceCode (loc_start location)
      in st\<lparr>reports := reports st @
           [\<lparr>messageId = msgId,
             data_prop = PropertyReadWithParent.name node,
             loc = location,
             fix' = (if explicit
                     then InsertTextBeforeRange (startIndex, startIndex) ''this.''
                     else ReplaceTextRange (startIndex, startIndex + length ''this.'') '''')\<rparr>]\<rparr>)"

subsection \<open>The visitors\<close>

text \<open>
  Every call of \<^verbatim>\<open>createRuleListener\<close> starts with two empty arrays. Its first statement,
  \<^verbatim>\<open>ensureTemplateParser(context)\<close>, checks the host's parser services and takes no part
  in what the visitors do.
\<close>

definition createRuleListener :: listener where
  "createRuleListener = \<lparr>variables = [], templates = [], reports = []\<rparr>"

definition Template :: "EmbeddedTemplateAst \<Rightarrow> listener \<Rightarrow> listener" where
  "Template node st =
     st\<lparr>listener.variables := listener.variables st @ EmbeddedTemplateAst.variables node,
        templates := templates st @ EmbeddedTemplateAst.references node\<rparr>"

definition Element :: "ElementAst \<Rightarrow> listener \<Rightarrow> listener" where
  "Element node st =
     (case ElementAst.references node of
        None \<Rightarrow> st
      | Some refs \<Rightarrow>
          if length refs > 0 then st\<lparr>templates := templates st @ refs\<rparr> else st)"

definition PropertyRead ::
  "SourceCode \<Rightarrow> RuleOptions \<Rightarrow> PropertyReadWithParent \<Rightarrow> listener \<Rightarrow> js_error + listener" where
  "PropertyRead sourceCode options node st =
     (if \<not> isImplicitReceiver node \<and> \<not> isExplicitReceiver node then Inr st
      else if PropertyReadWithParent.name node \<in> set SAFE_GLOBALS then Inr st
      else if PropertyReadWithParent.name node
                \<in> set (map VariableAst.name (listener.variables st)) then
        (if RuleOptions.variables options = Explicit \<and> isImplicitReceiver node
         then Inr (reportError sourceCode True (MESSAGE_IDS_variables Explicit) node st)
         else if RuleOptions.variables options = Implicit \<and> isExplicitReceiver node
         then Inr (reportError sourceCode False (MESSAGE_IDS_variables Implicit) node st)
         else Inr st)
      else if PropertyReadWithParent.name node
                \<in> set (map ReferenceAst.name (templates st)) then
        (if templateReferences options = Explicit \<and> isImplicitReceiver node
         then Inr (reportError sourceCode True (MESSAGE_IDS_templateReferences Explicit) node st)
         else if templateReferences options = Implicit \<and> isExplicitReceiver node
         then Inr (reportError sourceCode False (MESSAGE_IDS_templateReferences Implicit) node st)
         else Inr st)
      else
        (case parent_parent_name node of
           Inl e \<Rightarrow> Inl e
         | Inr directive \<Rightarrow>
             if array_includes SAFE_STRUCTURAL_DIRECTIVES directive then
               (if templateReferences options = Explicit \<and> isImplicitReceiver node
                then Inr (reportError sourceCode True
                            (MESSAGE_IDS_templateReferences Explicit) node st)
                else if templateReferences options = Implicit \<and> isExplicitReceiver node
                then Inr (reportError sourceCode False
                            (MESSAGE_IDS_templateReferences Implicit) node st)
                else Inr st)
             else if properties options = Explicit \<and> isImplicitReceiver node
             then Inr (reportError sourceCode True (MESSAGE_IDS_properties Explicit) node st)
             else if properties options = Implicit \<and> isExplicitReceiver node
             then Inr (reportError sourceCode False (MESSAGE_IDS_properties Implicit) node st)
             else Inr st))"

subsection \<open>The traversal\<close>

text \<open>
  The host walks the template and calls the visitor of each node it meets. A traversal
  is the list of these nodes in the order of the host's visits, which is a parameter here;
  an exception in a visitor ends it.
\<close>

datatype TemplateNode =
    TemplateNode EmbeddedTemplateAst
  | ElementNode ElementAst
  | PropertyReadNode PropertyReadWithParent

fun visit :: "SourceCode \<Rightarrow> RuleOptions \<Rightarrow> TemplateNode \<Rightarrow> listener \<Rightarrow> js_error + listener" where
  "visit sourceCode options (TemplateNode node) st = Inr (Template node st)"
| "visit sourceCode options (ElementNode node) st = Inr (Element node st)"
| "visit sourceCode options (PropertyReadNode node) st = PropertyRead sourceCode options node st"

fun traverse ::
  "SourceCode \<Rightarrow> RuleOptions \<Rightarrow> TemplateNode list \<Rightarrow> listener \<Rightarrow> js_error + listener" where
  "traverse sourceCode options [] st = Inr st"
| "traverse sourceCode options (n # ns) st =
     (case visit sourceCode options n st of
        Inl e \<Rightarrow> Inl e
      | Inr st' \<Rightarrow> traverse sourceCode options ns st')"

definition lint :: "SourceCode \<Rightarrow> RuleOptions \<Rightarrow> TemplateNode list \<Rightarrow> js_error + listener" where
  "lint sourceCode options nodes = traverse sourceCode options nodes createRuleListener"

subsection \<open>Runs of the rule in one module\<close>

text \<open>
  The record \<^typ>\<open>listener\<close> is the closure of one call of \<^verbatim>\<open>createRuleListener\<close>.
  The module outlives the call: the arrays that earlier calls allocated stay in the heap.
  Here the heap is explicit. An array literal \<^verbatim>\<open>[]\<close> allocates a new array at the next
  free address, the closure holds the addresses of its two arrays, \<^verbatim>\<open>push\<close> updates the
  array at an address, and the property-read visitor reads the two arrays through the
  closure. Each run has its own \<^verbatim>\<open>context\<close>, so its list of reports starts empty.
\<close>

datatype js_array = VariableArray "VariableAst list" | ReferenceArray "ReferenceAst list"

type_synonym heap = "js_array list"

record closure =
  variables_ref :: nat
  templates_ref :: nat

text \<open>
  Reading through an address. A closure never holds an address outside the heap or the
  address of an array of the other kind; the empty array stands in both cases.
\<close>

definition variables_at :: "heap \<Rightarrow> nat \<Rightarrow> VariableAst list" where
  "variables_at h a =
     (if a < length h then (case h ! a of VariableArray xs \<Rightarrow> xs | ReferenceArray ys \<Rightarrow> [])
      else [])"

definition references_at :: "heap \<Rightarrow> nat \<Rightarrow> ReferenceAst list" where
  "references_at h a =
     (if a < length h then (case h ! a of ReferenceArray ys \<Rightarrow> ys | VariableArray xs \<Rightarrow> [])
      else [])"

definition push_variables :: "nat \<Rightarrow> VariableAst list \<Rightarrow> heap \<Rightarrow> heap" where
  "push_variables a xs h = h[a := VariableArray (variables_at h a @ xs)]"

definition push_references :: "nat \<Rightarrow> ReferenceAst list \<Rightarrow> heap \<Rightarrow> heap" where
  "push_references a ys h = h[a := ReferenceArray (references_at h a @ ys)]"

definition createRuleListener_heap :: "heap \<Rightarrow> closure \<times> heap" where
  "createRuleListener_heap h =
     (\<lparr>variables_ref = length h, templates_ref = Suc (length h)\<rparr>,
      h @ [VariableArray [], ReferenceArray []])"

definition Template_heap :: "closure \<Rightarrow> EmbeddedTemplateAst \<Rightarrow> heap \<Rightarrow> heap" where
  "Template_heap c node h =
     push_references (templates_ref c) (EmbeddedTemplateAst.references node)
       (push_variables (variables_ref c) (EmbeddedTemplateAst.variables node) h)"

definition Element_heap :: "closure \<Rightarrow> ElementAst \<Rightarrow> heap \<Rightarrow> heap" where
  "Element_heap c node h =
     (case ElementAst.references node of
        None \<Rightarrow> h
      | Some refs \<Rightarrow> if length refs > 0 then push_references (templates_ref c) refs h else h)"

text \<open>The two arrays as the closure sees them, with the reports of the run so far.\<close>

definition closure_view :: "closure \<Rightarrow> heap \<Rightarrow> ReportDescriptor list \<Rightarrow> listener" where
  "closure_view c h rs =
     \<lparr>variables = variables_at h (variables_ref c),
      templates = references_at h (templates_ref c),
      reports = rs\<rparr>"

definition PropertyRead_heap ::
  "SourceCode \<Rightarrow> RuleOptions \<Rightarrow> closure \<Rightarrow> PropertyReadWithParent \<Rightarrow> heap \<Rightarrow>
     ReportDescriptor list \<Rightarrow> js_error + ReportDescriptor list" where
  "PropertyRead_heap sc opts c node h rs =
     (case PropertyRead sc opts node (closure_view c h rs) of
        Inl e \<Rightarrow> Inl e
      | Inr st \<Rightarrow> Inr (reports st))"

fun visit_heap ::
  "SourceCode \<Rightarrow> RuleOptions \<Rightarrow> closure \<Rightarrow> TemplateNode \<Rightarrow> heap \<Rightarrow> ReportDescriptor list \<Rightarrow>
     (js_error + ReportDescriptor list) \<times> heap" where
  "visit_heap sc opts c (TemplateNode node) h rs = (Inr rs, Template_heap c node h)"
| "visit_heap sc opts c (ElementNode node) h rs = (Inr rs, Element_heap c node h)"
| "visit_heap sc opts c (PropertyReadNode node) h rs = (PropertyRead_heap sc opts c node h rs, h)"

fun traverse_heap ::
  "SourceCode \<Rightarrow> RuleOptions \<Rightarrow> closure \<Rightarrow> TemplateNode list \<Rightarrow> heap \<Rightarrow> ReportDescriptor list \<Rightarrow>
     (js_error + ReportDescriptor list) \<times> heap" where
  "traverse_heap sc opts c [] h rs = (Inr rs, h)"
| "traverse_heap sc opts c (n # ns) h rs =
     (case visit_heap sc opts c n h rs of
        (Inl e, h') \<Rightarrow> (Inl e, h')
      | (Inr rs', h') \<Rightarrow> traverse_heap sc opts c ns h' rs')"

text \<open>
  One run on a heap: the exception or the reports of the run, and the heap it leaves.
\<close>

definition run_rule ::
  "SourceCode \<Rightarrow> RuleOptions \<Rightarrow> TemplateNode list \<Rightarrow> heap \<Rightarrow>
     (js_error + ReportDescriptor list) \<times> heap" where
  "run_rule sc opts nodes h =
     (case createRuleListener_heap h of (c, h') \<Rightarrow> traverse_heap sc opts c nodes h' [])"

text \<open>The closure's two addresses are in the heap, differ, and hold arrays of their kinds.\<close>

definition owns :: "closure \<Rightarrow> heap \<Rightarrow> bool" where
  "owns c h \<longleftrightarrow>
     variables_ref c < length h \<and> templates_ref c < length h \<and>
     variables_ref c \<noteq> templates_ref c \<and>
     (\<exists>xs. h ! variables_ref c = VariableArray xs) \<and>
     (\<exists>ys. h ! templates_ref c = ReferenceArray ys)"

subsection \<open>Observations\<close>

text \<open>
  What a visitor call reported: the reports of its result beyond those of the state it was
  given. A call that throws reports nothing.
\<close>

definition reported :: "listener \<Rightarrow> js_error + listener \<Rightarrow> ReportDescriptor list" where
  "reported st res =
     (case res of Inl e \<Rightarrow> [] | Inr st' \<Rightarrow> drop (length (reports st)) (reports st'))"

text \<open>The variables and the references that the nodes of a traversal declare, in order.\<close>

fun declared_variables :: "TemplateNode list \<Rightarrow> VariableAst list" where
  "declared_variables [] = []"
| "declared_variables (TemplateNode node # ns) =
     EmbeddedTemplateAst.variables node @ declared_variables ns"
| "declared_variables (n # ns) = declared_variables ns"

fun declared_references :: "TemplateNode list \<Rightarrow> ReferenceAst list" where
  "declared_references [] = []"
| "declared_references (TemplateNode node # ns) =
     EmbeddedTemplateAst.references node @ declared_references ns"
| "declared_references (ElementNode node # ns) =
     (case ElementAst.references node of None \<Rightarrow> [] | Some refs \<Rightarrow> refs)
       @ declared_references ns"
| "declared_references (n # ns) = declared_references ns"

subsection \<open>Example inputs\<close>

text \<open>A source text of one line: offset \<open>i\<close> is column \<open>i\<close> of line 1.\<close>

definition oneLine :: SourceCode where
  "oneLine = \<lparr>getLocFromIndex = (\<lambda>i. \<lparr>line = 1, column = i\<rparr>),
              getIndexFromLoc = (\<lambda>p. column p)\<rparr>"

text \<open>
  A property read at offset \<open>s\<close>, below a node whose parent has the name \<open>d\<close>. With the
  receiver \<^verbatim>\<open>this\<close> the span covers the five characters of \<^verbatim>\<open>this.\<close> too.
\<close>

definition mkRead :: "string \<Rightarrow> Receiver \<Rightarrow> nat \<Rightarrow> string option \<Rightarrow> PropertyReadWithParent" where
  "mkRead n r s d =
     \<lparr>name = n, receiver = r,
      sourceSpan = \<lparr>start = s,
                    end' = s + (if r = ThisReceiver then 5 else 0) + length n\<rparr>,
      parent = Some \<lparr>WithParent.parent = Some \<lparr>Named.name = d\<rparr>\<rparr>\<rparr>"

text \<open>
  The registries after \<^verbatim>\<open>*ngFor="let $event of items"\<close>: the template declares an input
  variable with the name of the event object.
\<close>

definition shadowedEvent :: listener where
  "shadowedEvent =
     Template \<lparr>EmbeddedTemplateAst.variables = [\<lparr>VariableAst.name = ''$event''\<rparr>],
               EmbeddedTemplateAst.references = []\<rparr> createRuleListener"

text \<open>The registries after \<^verbatim>\<open>*ngFor="let item of items"\<close>, and with \<^verbatim>\<open>#item\<close> declared too.\<close>

definition loopItem :: listener where
  "loopItem =
     Template \<lparr>EmbeddedTemplateAst.variables = [\<lparr>VariableAst.name = ''item''\<rparr>],
               EmbeddedTemplateAst.references = []\<rparr> createRuleListener"

definition loopItemAndReference :: listener where
  "loopItemAndReference = Element \<lparr>references = Some [\<lparr>ReferenceAst.name = ''item''\<rparr>]\<rparr> loopItem"

text \<open>The registries with \<^verbatim>\<open>$event\<close> declared as a variable and as a reference.\<close>

definition shadowedEventAndReference :: listener where
  "shadowedEventAndReference =
     Element \<lparr>references = Some [\<lparr>ReferenceAst.name = ''$event''\<rparr>]\<rparr> shadowedEvent"

text \<open>Reads whose ancestor links are missing: no parent, and a parent without parent.\<close>

definition orphanRead :: PropertyReadWithParent where
  "orphanRead = \<lparr>name = ''title'', receiver = ImplicitReceiver,
                  sourceSpan = \<lparr>start = 3, end' = 8\<rparr>, parent = None\<rparr>"

definition halfOrphanRead :: PropertyReadWithParent where
  "halfOrphanRead = \<lparr>name = ''title'', receiver = ImplicitReceiver,
                      sourceSpan = \<lparr>start = 3, end' = 8\<rparr>,
                      parent = Some \<lparr>WithParent.parent = None\<rparr>\<rparr>"

text \<open>
  The visit of \<^verbatim>\<open><ng-template #tpl>\<close> alone, and the visit of the read in
  \<^verbatim>\<open>[title]="tpl"\<close> followed by the visit of \<^verbatim>\<open><ng-template #tpl>\<close>: the reference is
  declared by a node that is visited after the read.
\<close>

definition referenceDeclared :: "TemplateNode list" where
  "referenceDeclared =
     [TemplateNode \<lparr>EmbeddedTemplateAst.variables = [],
                    EmbeddedTemplateAst.references = [\<lparr>ReferenceAst.name = ''tpl''\<rparr>]\<rparr>]"

definition forwardReference :: "TemplateNode list" where
  "forwardReference =
     PropertyReadNode (mkRead ''tpl'' ImplicitReceiver 14 (Some ''title'')) # referenceDeclared"

section \<open>Properties\<close>

subsection \<open>Reporting adds one report and nothing else\<close>

lemma reportError_variables [simp]:
  "listener.variables (reportError sc e m node st) = listener.variables st"
  by (simp add: reportError_def Let_def)

lemma reportError_templates [simp]:
  "templates (reportError sc e m node st) = templates st"
  by (simp add: reportError_def Let_def)

lemma reportError_appends:
  "\<exists>r. reportError sc e m node st = st\<lparr>reports := reports st @ [r]\<rparr> \<and> messageId r = m"
  by (rule exI [where x = "last (reports (reportError sc e m node st))"])
     (simp add: reportError_def Let_def)

lemma reported_unchanged [simp]: "reported st (Inr st) = []"
  by (simp add: reported_def)

lemma reported_thrown [simp]: "reported st (Inl e) = []"
  by (simp add: reported_def)

lemma reported_reportError [simp]:
  "map messageId (reported st (Inr (reportError sc e m node st))) = [m]"
  by (simp add: reported_def reportError_def Let_def)

lemma reported_reportError_kinds [simp]:
  "messageId ` set (reported st (Inr (reportError sc e m node st))) = {m}"
  by (simp add: reported_def reportError_def Let_def)

lemma PropertyRead_outcomes:
  "PropertyRead sc opts node st = Inl TypeError
   \<or> PropertyRead sc opts node st = Inr st
   \<or> (\<exists>e m. PropertyRead sc opts node st = Inr (reportError sc e m node st))"
proof (cases "parent_parent_name node")
  case (Inl e)
  then show ?thesis by (cases e) (auto simp: PropertyRead_def)
next
  case (Inr d)
  then show ?thesis by (auto simp: PropertyRead_def)
qed


lemma reported_reportError_eq:
  "reported st (Inr (reportError sc e m node st)) =
     [\<lparr>messageId = m, data_prop = PropertyReadWithParent.name node,
       loc = \<lparr>loc_start = getLocFromIndex sc (start (sourceSpan node)),
              loc_end = getLocFromIndex sc (end' (sourceSpan node))\<rparr>,
       fix' = (if e then InsertTextBeforeRange
                          (getIndexFromLoc sc (getLocFromIndex sc (start (sourceSpan node))),
                           getIndexFromLoc sc (getLocFromIndex sc (start (sourceSpan node))))
                          ''this.''
               else ReplaceTextRange
                      (getIndexFromLoc sc (getLocFromIndex sc (start (sourceSpan node))),
                       getIndexFromLoc sc (getLocFromIndex sc (start (sourceSpan node))) + 5)
                      '''')\<rparr>]"
  by (simp add: reported_def reportError_def Let_def)

text \<open>
  An explicit-kind report is made with the flag \<^verbatim>\<open>explicit = true\<close> and only for an
  implicit receiver; an implicit-kind report with \<^verbatim>\<open>explicit = false\<close> and only for the
  receiver \<^verbatim>\<open>this\<close>.
\<close>

lemma PropertyRead_reports:
  "PropertyRead sc opts node st = Inl TypeError
   \<or> PropertyRead sc opts node st = Inr st
   \<or> (receiver node = ImplicitReceiver \<and>
       (\<exists>m \<in> {ExplicitThisProperties, ExplicitThisVariables, ExplicitThisTemplateReferences}.
          PropertyRead sc opts node st = Inr (reportError sc True m node st)))
   \<or> (receiver node = ThisReceiver \<and>
       (\<exists>m \<in> {ImplicitThisProperties, ImplicitThisVariables, ImplicitThisTemplateReferences}.
          PropertyRead sc opts node st = Inr (reportError sc False m node st)))"
proof (cases "parent_parent_name node")
  case (Inl e)
  then show ?thesis
    by (cases e) (auto simp: PropertyRead_def isImplicitReceiver_def isExplicitReceiver_def)
next
  case (Inr d)
  then show ?thesis
    by (auto simp: PropertyRead_def isImplicitReceiver_def isExplicitReceiver_def)
qed

subsection \<open>The registries along a traversal\<close>

lemma PropertyRead_registries:
  assumes "PropertyRead sc opts node st = Inr st'"
  shows "listener.variables st' = listener.variables st \<and> templates st' = templates st"
  using PropertyRead_outcomes [of sc opts node st] assms by auto

lemma traverse_registries:
  "traverse sc opts ns st = Inr st' \<Longrightarrow>
     listener.variables st' = listener.variables st @ declared_variables ns \<and>
     templates st' = templates st @ declared_references ns"
proof (induction ns arbitrary: st)
  case Nil
  then show ?case by simp
next
  case (Cons n ns)
  show ?case
  proof (cases n)
    case (TemplateNode t)
    with Cons.prems have "traverse sc opts ns (Template t st) = Inr st'" by simp
    from Cons.IH [OF this] TemplateNode show ?thesis by (simp add: Template_def)
  next
    case (ElementNode e)
    with Cons.prems have "traverse sc opts ns (Element e st) = Inr st'" by simp
    from Cons.IH [OF this] ElementNode show ?thesis
      by (simp add: Element_def split: option.splits)
  next
    case (PropertyReadNode r)
    with Cons.prems obtain st1 where s: "PropertyRead sc opts r st = Inr st1"
      and t: "traverse sc opts ns st1 = Inr st'"
      by (auto split: sum.splits)
    from Cons.IH [OF t] PropertyRead_registries [OF s] PropertyReadNode show ?thesis by simp
  qed
qed

lemma traverse_append:
  "traverse sc opts (ns @ ms) st =
     (case traverse sc opts ns st of Inl e \<Rightarrow> Inl e | Inr st' \<Rightarrow> traverse sc opts ms st')"
  by (induction ns arbitrary: st) (auto split: sum.splits)

subsection \<open>A run sees the arrays it allocated and no others\<close>

lemma owns_createRuleListener_heap:
  "createRuleListener_heap h = (c, h') \<Longrightarrow> owns c h'"
  by (auto simp: createRuleListener_heap_def owns_def nth_append)

lemma view_createRuleListener_heap:
  "createRuleListener_heap h = (c, h') \<Longrightarrow> closure_view c h' [] = createRuleListener"
  by (auto simp: createRuleListener_heap_def closure_view_def createRuleListener_def
      variables_at_def references_at_def nth_append)

lemma Template_heap_view:
  assumes "owns c h"
  shows "owns c (Template_heap c node h) \<and>
         closure_view c (Template_heap c node h) rs = Template node (closure_view c h rs)"
  using assms
  by (auto simp: owns_def Template_heap_def closure_view_def Template_def push_variables_def
      push_references_def variables_at_def references_at_def nth_list_update)

lemma Element_heap_view:
  assumes "owns c h"
  shows "owns c (Element_heap c node h) \<and>
         closure_view c (Element_heap c node h) rs = Element node (closure_view c h rs)"
  using assms
  by (auto simp: owns_def Element_heap_def closure_view_def Element_def
      push_references_def variables_at_def references_at_def nth_list_update
      split: option.splits)

lemma PropertyRead_view:
  assumes "PropertyRead sc opts node (closure_view c h rs) = Inr st"
  shows "st = closure_view c h (reports st)"
  using PropertyRead_registries [OF assms]
  by (cases st) (simp add: closure_view_def)

lemma traverse_heap_view:
  "owns c h \<Longrightarrow>
     fst (traverse_heap sc opts c ns h rs) =
       (case traverse sc opts ns (closure_view c h rs) of
          Inl e \<Rightarrow> Inl e | Inr st \<Rightarrow> Inr (reports st))"
proof (induction ns arbitrary: h rs)
  case Nil
  then show ?case by (simp add: closure_view_def)
next
  case (Cons n ns)
  show ?case
  proof (cases n)
    case (TemplateNode t)
    with Cons.prems Cons.IH [of "Template_heap c t h" rs] Template_heap_view [of c h t rs]
    show ?thesis by simp
  next
    case (ElementNode e)
    with Cons.prems Cons.IH [of "Element_heap c e h" rs] Element_heap_view [of c h e rs]
    show ?thesis by simp
  next
    case (PropertyReadNode r)
    show ?thesis
    proof (cases "PropertyRead sc opts r (closure_view c h rs)")
      case (Inl e)
      with PropertyReadNode show ?thesis by (simp add: PropertyRead_heap_def)
    next
      case (Inr st)
      from PropertyRead_view [OF Inr] have "closure_view c h (reports st) = st" by simp
      with Inr PropertyReadNode Cons.prems Cons.IH [of h "reports st"]
      show ?thesis by (simp add: PropertyRead_heap_def)
    qed
  qed
qed

lemma run_rule_lint:
  "fst (run_rule sc opts nodes h) =
     (case lint sc opts nodes of Inl e \<Rightarrow> Inl e | Inr st \<Rightarrow> Inr (reports st))"
proof -
  obtain c h' where a: "createRuleListener_heap h = (c, h')"
    by (cases "createRuleListener_heap h")
  from traverse_heap_view [OF owns_createRuleListener_heap [OF a], of sc opts nodes "[]"]
    view_createRuleListener_heap [OF a]
  show ?thesis by (simp add: run_rule_def a lint_def)
qed

subsection \<open>Safe globals\<close>

text \<open>
  C4. A property read whose name is in the safe-global list (\<^verbatim>\<open>$event\<close>) is never
  reported: for every configuration, every receiver form, every ancestor chain and every
  content of the two registries the visitor returns the state it was given.
\<close>

theorem safe_global_never_reported:
  assumes "PropertyReadWithParent.name node \<in> set SAFE_GLOBALS"
  shows "PropertyRead sourceCode options node st = Inr st"
  using assms by (simp add: PropertyRead_def)

theorem safe_global_never_reported_witness:
  "PropertyReadWithParent.name (mkRead ''$event'' ImplicitReceiver 8 None) \<in> set SAFE_GLOBALS \<and>
   PropertyRead oneLine
     \<lparr>properties = Explicit, variables = Explicit, templateReferences = Explicit\<rparr>
     (mkRead ''$event'' ImplicitReceiver 8 None)
     \<lparr>variables = [\<lparr>VariableAst.name = ''$event''\<rparr>], templates = [], reports = []\<rparr>
   = Inr \<lparr>variables = [\<lparr>VariableAst.name = ''$event''\<rparr>], templates = [], reports = []\<rparr>"
proof -
  have h: "PropertyReadWithParent.name (mkRead ''$event'' ImplicitReceiver 8 None)
             \<in> set SAFE_GLOBALS"
    by (simp add: mkRead_def SAFE_GLOBALS_def)
  show ?thesis using h safe_global_never_reported [OF h] by simp
qed

subsection \<open>At most one violation per read\<close>

text \<open>
  C6. Every property read produces at most one violation: for every read, configuration
  and state the visitor throws, or returns the state unchanged, or returns it with exactly
  one report added. The kind of a report is one of the six constructors of
  \<^typ>\<open>MessageIds\<close>.
\<close>

theorem at_most_one_violation:
  "length (reported st (PropertyRead sc opts node st)) \<le> 1 \<and>
   (PropertyRead sc opts node st = Inl TypeError
    \<or> PropertyRead sc opts node st = Inr st
    \<or> (\<exists>r. PropertyRead sc opts node st = Inr (st\<lparr>reports := reports st @ [r]\<rparr>)))"
proof -
  consider "PropertyRead sc opts node st = Inl TypeError"
    | "PropertyRead sc opts node st = Inr st"
    | e m where "PropertyRead sc opts node st = Inr (reportError sc e m node st)"
    using PropertyRead_outcomes by blast
  then show ?thesis
  proof cases
    case 1 then show ?thesis by simp
  next
    case 2 then show ?thesis by simp
  next
    case 3
    obtain r where "reportError sc e m node st = st\<lparr>reports := reports st @ [r]\<rparr>"
      using reportError_appends by blast
    with 3 show ?thesis by (auto simp: reported_def)
  qed
qed

subsection \<open>The input-variable tier\<close>

text \<open>
  C3, as stated, fails: the safe-global test comes first. With \<^verbatim>\<open>$event\<close> declared as an
  input variable, \<^verbatim>\<open>variables = "explicit"\<close> and a read of \<^verbatim>\<open>$event\<close> without qualifier,
  the read's name is registered and its form is implicit, and nothing is reported.
\<close>

theorem variables_policy_safe_global_counterexample:
  "PropertyReadWithParent.name (mkRead ''$event'' ImplicitReceiver 3 None)
     \<in> set (map VariableAst.name (listener.variables shadowedEvent)) \<and>
   receiver (mkRead ''$event'' ImplicitReceiver 3 None) = ImplicitReceiver \<and>
   reported shadowedEvent
     (PropertyRead oneLine
        \<lparr>properties = Explicit, variables = Explicit, templateReferences = Implicit\<rparr>
        (mkRead ''$event'' ImplicitReceiver 3 None) shadowedEvent) = []"
  by (simp add: shadowedEvent_def Template_def createRuleListener_def mkRead_def
      PropertyRead_def SAFE_GLOBALS_def isImplicitReceiver_def isExplicitReceiver_def)

text \<open>
  C3, amended. For every property read whose name is registered as an input variable and
  is not a safe global: the visitor does not throw; with \<^verbatim>\<open>variables = "explicit"\<close> it
  reports \<^verbatim>\<open>explicitThisVariables\<close> if and only if the receiver is implicit; with
  \<^verbatim>\<open>variables = "implicit"\<close> it reports \<^verbatim>\<open>implicitThisVariables\<close> if and only if the
  receiver is \<^verbatim>\<open>this\<close>; in every other combination it reports nothing.
\<close>

theorem variables_policy:
  assumes "PropertyReadWithParent.name node \<in> set (map VariableAst.name (listener.variables st))"
    and "PropertyReadWithParent.name node \<notin> set SAFE_GLOBALS"
  shows "(\<exists>st'. PropertyRead sc opts node st = Inr st') \<and>
    (RuleOptions.variables opts = Explicit \<longrightarrow>
       (map messageId (reported st (PropertyRead sc opts node st)) = [ExplicitThisVariables]
          \<longleftrightarrow> receiver node = ImplicitReceiver)) \<and>
    (RuleOptions.variables opts = Implicit \<longrightarrow>
       (map messageId (reported st (PropertyRead sc opts node st)) = [ImplicitThisVariables]
          \<longleftrightarrow> receiver node = ThisReceiver)) \<and>
    (\<not> (RuleOptions.variables opts = Explicit \<and> receiver node = ImplicitReceiver) \<and>
     \<not> (RuleOptions.variables opts = Implicit \<and> receiver node = ThisReceiver) \<longrightarrow>
       PropertyRead sc opts node st = Inr st)"
  using assms
  by (cases "RuleOptions.variables opts"; cases "receiver node")
     (simp_all add: PropertyRead_def isImplicitReceiver_def isExplicitReceiver_def)

text \<open>Scenario A of the spec: \<^verbatim>\<open>this.item\<close> under the default options.\<close>

theorem variables_policy_witness:
  "PropertyReadWithParent.name (mkRead ''item'' ThisReceiver 3 None)
     \<in> set (map VariableAst.name (listener.variables loopItem)) \<and>
   PropertyReadWithParent.name (mkRead ''item'' ThisReceiver 3 None) \<notin> set SAFE_GLOBALS \<and>
   map messageId (reported loopItem
     (PropertyRead oneLine defaultOptions (mkRead ''item'' ThisReceiver 3 None) loopItem))
     = [ImplicitThisVariables]"
proof -
  have h1: "PropertyReadWithParent.name (mkRead ''item'' ThisReceiver 3 None)
              \<in> set (map VariableAst.name (listener.variables loopItem))"
    by (simp add: mkRead_def loopItem_def Template_def createRuleListener_def)
  have h2: "PropertyReadWithParent.name (mkRead ''item'' ThisReceiver 3 None)
              \<notin> set SAFE_GLOBALS"
    by (simp add: mkRead_def SAFE_GLOBALS_def)
  have "RuleOptions.variables defaultOptions = Implicit"
    and "receiver (mkRead ''item'' ThisReceiver 3 None) = ThisReceiver"
    by (simp_all add: defaultOptions_def mkRead_def)
  with variables_policy [OF h1 h2, of oneLine defaultOptions] h1 h2 show ?thesis
    by blast
qed

text \<open>
  C5, as stated, fails: the safe-global test comes before both tiers. With \<^verbatim>\<open>$event\<close>
  registered as an input variable and as a template reference, \<^verbatim>\<open>variables = "explicit"\<close>
  and a read of \<^verbatim>\<open>$event\<close> without qualifier, the option \<^verbatim>\<open>variables\<close> is not applied:
  nothing is reported.
\<close>

theorem variable_tier_safe_global_counterexample:
  "PropertyReadWithParent.name (mkRead ''$event'' ImplicitReceiver 3 None)
     \<in> set (map VariableAst.name (listener.variables shadowedEventAndReference)) \<and>
   PropertyReadWithParent.name (mkRead ''$event'' ImplicitReceiver 3 None)
     \<in> set (map ReferenceAst.name (templates shadowedEventAndReference)) \<and>
   receiver (mkRead ''$event'' ImplicitReceiver 3 None) = ImplicitReceiver \<and>
   reported shadowedEventAndReference
     (PropertyRead oneLine
        \<lparr>properties = Explicit, variables = Explicit, templateReferences = Explicit\<rparr>
        (mkRead ''$event'' ImplicitReceiver 3 None) shadowedEventAndReference) = []"
  by (simp add: shadowedEventAndReference_def shadowedEvent_def Element_def Template_def
      createRuleListener_def mkRead_def PropertyRead_def SAFE_GLOBALS_def
      isImplicitReceiver_def isExplicitReceiver_def)

text \<open>
  C5, amended. A read whose name is registered both as an input variable and as a template
  reference, and is not a safe global, is decided by the input-variable tier. The visitor
  does not throw; the option \<^verbatim>\<open>variables\<close> is applied: with \<^verbatim>\<open>"explicit"\<close> and an implicit
  receiver it reports \<^verbatim>\<open>explicitThisVariables\<close>, with \<^verbatim>\<open>"implicit"\<close> and the receiver
  \<^verbatim>\<open>this\<close> it reports \<^verbatim>\<open>implicitThisVariables\<close>, and nothing otherwise; so every report
  has a variables kind, never a templateReferences kind; and the options
  \<^verbatim>\<open>templateReferences\<close> and \<^verbatim>\<open>properties\<close> have no influence on the result.
\<close>

theorem variable_tier_before_reference_tier:
  assumes "PropertyReadWithParent.name node \<in> set (map VariableAst.name (listener.variables st))"
    and "PropertyReadWithParent.name node \<in> set (map ReferenceAst.name (templates st))"
    and "PropertyReadWithParent.name node \<notin> set SAFE_GLOBALS"
  shows "(\<exists>st'. PropertyRead sc opts node st = Inr st') \<and>
    map messageId (reported st (PropertyRead sc opts node st)) =
      (if RuleOptions.variables opts = Explicit \<and> receiver node = ImplicitReceiver
       then [ExplicitThisVariables]
       else if RuleOptions.variables opts = Implicit \<and> receiver node = ThisReceiver
       then [ImplicitThisVariables]
       else []) \<and>
    set (map messageId (reported st (PropertyRead sc opts node st)))
      \<subseteq> {ExplicitThisVariables, ImplicitThisVariables} \<and>
    PropertyRead sc (opts\<lparr>templateReferences := m, properties := m'\<rparr>) node st
      = PropertyRead sc opts node st"
  using assms
  by (cases "RuleOptions.variables opts"; cases "receiver node")
     (simp_all add: PropertyRead_def isImplicitReceiver_def isExplicitReceiver_def)

theorem variable_tier_before_reference_tier_witness:
  "PropertyReadWithParent.name (mkRead ''item'' ImplicitReceiver 3 None)
     \<in> set (map VariableAst.name (listener.variables loopItemAndReference)) \<and>
   PropertyReadWithParent.name (mkRead ''item'' ImplicitReceiver 3 None)
     \<in> set (map ReferenceAst.name (templates loopItemAndReference)) \<and>
   PropertyReadWithParent.name (mkRead ''item'' ImplicitReceiver 3 None) \<notin> set SAFE_GLOBALS \<and>
   map messageId (reported loopItemAndReference
     (PropertyRead oneLine
        \<lparr>properties = Implicit, variables = Explicit, templateReferences = Implicit\<rparr>
        (mkRead ''item'' ImplicitReceiver 3 None) loopItemAndReference))
     = [ExplicitThisVariables]"
proof -
  have h1: "PropertyReadWithParent.name (mkRead ''item'' ImplicitReceiver 3 None)
              \<in> set (map VariableAst.name (listener.variables loopItemAndReference))"
    by (simp add: mkRead_def loopItemAndReference_def loopItem_def Element_def Template_def
        createRuleListener_def)
  have h2: "PropertyReadWithParent.name (mkRead ''item'' ImplicitReceiver 3 None)
              \<in> set (map ReferenceAst.name (templates loopItemAndReference))"
    by (simp add: mkRead_def loopItemAndReference_def loopItem_def Element_def Template_def
        createRuleListener_def)
  have h3: "PropertyReadWithParent.name (mkRead ''item'' ImplicitReceiver 3 None)
              \<notin> set SAFE_GLOBALS"
    by (simp add: mkRead_def SAFE_GLOBALS_def)
  from variable_tier_before_reference_tier [OF h1 h2 h3, of oneLine
      "\<lparr>properties = Implicit, variables = Explicit, templateReferences = Implicit\<rparr>"]
  have "map messageId (reported loopItemAndReference
     (PropertyRead oneLine
        \<lparr>properties = Implicit, variables = Explicit, templateReferences = Implicit\<rparr>
        (mkRead ''item'' ImplicitReceiver 3 None) loopItemAndReference))
     = [ExplicitThisVariables]"
    by (simp add: mkRead_def)
  with h1 h2 h3 show ?thesis by blast
qed

subsection \<open>The template-reference tier\<close>

text \<open>
  C1, as stated, fails: the registry is read as it is when the read is visited. In
  \<^verbatim>\<open>forwardReference\<close> the name \<^verbatim>\<open>tpl\<close> is declared as a reference by a node that is
  visited after the read of \<^verbatim>\<open>tpl\<close> without qualifier. Under the default options the
  reference tier would report nothing; the visitor reports \<^verbatim>\<open>explicitThisProperties\<close>.
  The option \<^verbatim>\<open>templateReferences\<close> does not change the result and the option
  \<^verbatim>\<open>properties\<close> does.
\<close>

theorem forward_reference_counterexample:
  "''tpl'' \<in> set (map ReferenceAst.name (declared_references forwardReference)) \<and>
   map messageId (reported createRuleListener (lint oneLine defaultOptions forwardReference))
     = [ExplicitThisProperties] \<and>
   map messageId (reported createRuleListener
     (lint oneLine (defaultOptions\<lparr>templateReferences := Explicit\<rparr>) forwardReference))
     = [ExplicitThisProperties] \<and>
   map messageId (reported createRuleListener
     (lint oneLine (defaultOptions\<lparr>properties := Implicit\<rparr>) forwardReference))
     = []"
  by (simp add: forwardReference_def referenceDeclared_def lint_def createRuleListener_def
      mkRead_def defaultOptions_def PropertyRead_def SAFE_GLOBALS_def
      SAFE_STRUCTURAL_DIRECTIVES_def isImplicitReceiver_def isExplicitReceiver_def
      parent_parent_name_def array_includes_def Template_def reported_def reportError_def
      Let_def oneLine_def)

text \<open>
  C1, amended. Let the host visit the nodes \<open>pre\<close>, then a property read, then the nodes
  \<open>post\<close>, from a fresh listener, and let the visits of \<open>pre\<close> end without exception.
  The read is decided on the registries as \<open>pre\<close> leaves them, whatever \<open>post\<close>
  declares. Let the read's name be no safe global and not the name of a variable that
  \<open>pre\<close> declares.

  \<^item> If a node of \<open>pre\<close> declares a reference of that name, the read is decided by the
    template-reference tier: the visitor does not throw, the option \<^verbatim>\<open>templateReferences\<close>
    and the receiver decide what is reported, and the option \<^verbatim>\<open>properties\<close> has no
    influence.
  \<^item> If no node of \<open>pre\<close> declares a reference of that name, the reference tier is not
    taken, also when a node of \<open>post\<close> declares one. With its ancestor two levels up
    present, the read is decided by the safe-directive check: under an ancestor whose name
    is in the list of safe structural directives the option \<^verbatim>\<open>templateReferences\<close> and the
    receiver decide what is reported; under an ancestor with another name or with no name
    the read is a plain property, and the option \<^verbatim>\<open>properties\<close> and the receiver decide.
\<close>

theorem reference_tier_by_visit_order:
  assumes "lint sc opts pre = Inr st"
    and "PropertyReadWithParent.name node \<notin> set SAFE_GLOBALS"
    and "PropertyReadWithParent.name node
           \<notin> set (map VariableAst.name (declared_variables pre))"
  shows
    "lint sc opts (pre @ PropertyReadNode node # post) =
       (case PropertyRead sc opts node st of
          Inl e \<Rightarrow> Inl e | Inr st' \<Rightarrow> traverse sc opts post st') \<and>
     (PropertyReadWithParent.name node
        \<in> set (map ReferenceAst.name (declared_references pre)) \<longrightarrow>
        (\<exists>st'. PropertyRead sc opts node st = Inr st') \<and>
        map messageId (reported st (PropertyRead sc opts node st)) =
          (if templateReferences opts = Explicit \<and> receiver node = ImplicitReceiver
           then [ExplicitThisTemplateReferences]
           else if templateReferences opts = Implicit \<and> receiver node = ThisReceiver
           then [ImplicitThisTemplateReferences]
           else []) \<and>
        PropertyRead sc (opts\<lparr>properties := m\<rparr>) node st = PropertyRead sc opts node st) \<and>
     (PropertyReadWithParent.name node
        \<notin> set (map ReferenceAst.name (declared_references pre)) \<longrightarrow>
        (\<forall>d. parent_parent_name node = Inr d \<longrightarrow>
           (\<exists>st'. PropertyRead sc opts node st = Inr st') \<and>
           map messageId (reported st (PropertyRead sc opts node st)) =
             (if array_includes SAFE_STRUCTURAL_DIRECTIVES d
              then (if templateReferences opts = Explicit \<and> receiver node = ImplicitReceiver
                    then [ExplicitThisTemplateReferences]
                    else if templateReferences opts = Implicit \<and> receiver node = ThisReceiver
                    then [ImplicitThisTemplateReferences]
                    else [])
              else (if properties opts = Explicit \<and> receiver node = ImplicitReceiver
                    then [ExplicitThisProperties]
                    else if properties opts = Implicit \<and> receiver node = ThisReceiver
                    then [ImplicitThisProperties]
                    else []))))"
proof -
  from assms(1) have regs: "listener.variables st = declared_variables pre"
    "templates st = declared_references pre"
    using traverse_registries [of sc opts pre createRuleListener st]
    by (simp_all add: lint_def createRuleListener_def)
  have run: "lint sc opts (pre @ PropertyReadNode node # post) =
       (case PropertyRead sc opts node st of
          Inl e \<Rightarrow> Inl e | Inr st' \<Rightarrow> traverse sc opts post st')"
    using assms(1) by (simp add: lint_def traverse_append split: sum.splits)
  have before: "(\<exists>st'. PropertyRead sc opts node st = Inr st') \<and>
        map messageId (reported st (PropertyRead sc opts node st)) =
          (if templateReferences opts = Explicit \<and> receiver node = ImplicitReceiver
           then [ExplicitThisTemplateReferences]
           else if templateReferences opts = Implicit \<and> receiver node = ThisReceiver
           then [ImplicitThisTemplateReferences]
           else []) \<and>
        PropertyRead sc (opts\<lparr>properties := m\<rparr>) node st = PropertyRead sc opts node st"
    if "PropertyReadWithParent.name node \<in> set (map ReferenceAst.name (declared_references pre))"
    using that assms(2,3) regs
    by (cases "templateReferences opts"; cases "receiver node")
       (simp_all add: PropertyRead_def isImplicitReceiver_def isExplicitReceiver_def)
  have after: "(\<exists>st'. PropertyRead sc opts node st = Inr st') \<and>
           map messageId (reported st (PropertyRead sc opts node st)) =
             (if array_includes SAFE_STRUCTURAL_DIRECTIVES d
              then (if templateReferences opts = Explicit \<and> receiver node = ImplicitReceiver
                    then [ExplicitThisTemplateReferences]
                    else if templateReferences opts = Implicit \<and> receiver node = ThisReceiver
                    then [ImplicitThisTemplateReferences]
                    else [])
              else (if properties opts = Explicit \<and> receiver node = ImplicitReceiver
                    then [ExplicitThisProperties]
                    else if properties opts = Implicit \<and> receiver node = ThisReceiver
                    then [ImplicitThisProperties]
                    else []))"
    if "PropertyReadWithParent.name node \<notin> set (map ReferenceAst.name (declared_references pre))"
      and "parent_parent_name node = Inr d" for d
    using that assms(2,3) regs
    by (cases "templateReferences opts"; cases "properties opts"; cases "receiver node")
       (simp_all add: PropertyRead_def isImplicitReceiver_def isExplicitReceiver_def)
  from run before after show ?thesis by blast
qed

text \<open>
  The read \<^verbatim>\<open>this.tpl\<close> visited after \<^verbatim>\<open><ng-template #tpl>\<close>, and the read \<^verbatim>\<open>tpl\<close> in
  \<^verbatim>\<open>[title]="tpl"\<close> visited before it.
\<close>

theorem reference_tier_by_visit_order_witness:
  "map messageId (reported
       (Template \<lparr>EmbeddedTemplateAst.variables = [],
                  EmbeddedTemplateAst.references = [\<lparr>ReferenceAst.name = ''tpl''\<rparr>]\<rparr>
          createRuleListener)
       (PropertyRead oneLine defaultOptions (mkRead ''tpl'' ThisReceiver 14 (Some ''title''))
          (Template \<lparr>EmbeddedTemplateAst.variables = [],
                     EmbeddedTemplateAst.references = [\<lparr>ReferenceAst.name = ''tpl''\<rparr>]\<rparr>
             createRuleListener)))
     = [ImplicitThisTemplateReferences] \<and>
   ''tpl'' \<in> set (map ReferenceAst.name (declared_references referenceDeclared)) \<and>
   map messageId (reported createRuleListener
       (PropertyRead oneLine defaultOptions (mkRead ''tpl'' ImplicitReceiver 14 (Some ''title''))
          createRuleListener))
     = [ExplicitThisProperties] \<and>
   lint oneLine defaultOptions
       ([] @ PropertyReadNode (mkRead ''tpl'' ImplicitReceiver 14 (Some ''title''))
          # referenceDeclared)
     = (case PropertyRead oneLine defaultOptions
               (mkRead ''tpl'' ImplicitReceiver 14 (Some ''title'')) createRuleListener of
          Inl e \<Rightarrow> Inl e
        | Inr st' \<Rightarrow> traverse oneLine defaultOptions referenceDeclared st')"
proof -
  let ?st = "Template \<lparr>EmbeddedTemplateAst.variables = [],
                       EmbeddedTemplateAst.references = [\<lparr>ReferenceAst.name = ''tpl''\<rparr>]\<rparr>
               createRuleListener"
  let ?a = "mkRead ''tpl'' ThisReceiver 14 (Some ''title'')"
  let ?b = "mkRead ''tpl'' ImplicitReceiver 14 (Some ''title'')"
  have a1: "lint oneLine defaultOptions referenceDeclared = Inr ?st"
    by (simp add: lint_def referenceDeclared_def)
  have a2: "PropertyReadWithParent.name ?a \<notin> set SAFE_GLOBALS"
    by (simp add: mkRead_def SAFE_GLOBALS_def)
  have a3: "PropertyReadWithParent.name ?a
              \<notin> set (map VariableAst.name (declared_variables referenceDeclared))"
    by (simp add: mkRead_def referenceDeclared_def)
  have a4: "PropertyReadWithParent.name ?a
              \<in> set (map ReferenceAst.name (declared_references referenceDeclared))"
    by (simp add: mkRead_def referenceDeclared_def)
  have a5: "templateReferences defaultOptions = Implicit" "receiver ?a = ThisReceiver"
    by (simp_all add: defaultOptions_def mkRead_def)
  from reference_tier_by_visit_order [OF a1 a2 a3, of "[]"] a4 a5
  have r1: "map messageId (reported ?st (PropertyRead oneLine defaultOptions ?a ?st))
              = [ImplicitThisTemplateReferences]"
    by simp
  have b1: "lint oneLine defaultOptions [] = Inr createRuleListener"
    by (simp add: lint_def)
  have b2: "PropertyReadWithParent.name ?b \<notin> set SAFE_GLOBALS"
    by (simp add: mkRead_def SAFE_GLOBALS_def)
  have b3: "PropertyReadWithParent.name ?b \<notin> set (map VariableAst.name (declared_variables []))"
    by simp
  have b4: "PropertyReadWithParent.name ?b
              \<notin> set (map ReferenceAst.name (declared_references []))"
    by simp
  have b5: "parent_parent_name ?b = Inr (Some ''title'')"
    "\<not> array_includes SAFE_STRUCTURAL_DIRECTIVES (Some ''title'')"
    "properties defaultOptions = Explicit" "receiver ?b = ImplicitReceiver"
    by (simp_all add: mkRead_def parent_parent_name_def array_includes_def
        SAFE_STRUCTURAL_DIRECTIVES_def defaultOptions_def)
  note b = reference_tier_by_visit_order [OF b1 b2 b3, of referenceDeclared]
  from b b4 b5 have r2: "map messageId (reported createRuleListener
          (PropertyRead oneLine defaultOptions ?b createRuleListener))
        = [ExplicitThisProperties]"
    by simp
  from b have r3: "lint oneLine defaultOptions ([] @ PropertyReadNode ?b # referenceDeclared)
     = (case PropertyRead oneLine defaultOptions ?b createRuleListener of
          Inl e \<Rightarrow> Inl e
        | Inr st' \<Rightarrow> traverse oneLine defaultOptions referenceDeclared st')"
    by blast
  have r4: "''tpl'' \<in> set (map ReferenceAst.name (declared_references referenceDeclared))"
    by (simp add: referenceDeclared_def)
  from r1 r2 r3 r4 show ?thesis by blast
qed

subsection \<open>The safe structural directives\<close>

text \<open>
  C7, as stated, fails: the safe-global test comes first. The read \<^verbatim>\<open>this.$event\<close> below
  the input \<^verbatim>\<open>ngIfThen\<close> has a name that is in neither registry, a host directive in the
  safe list and an explicit receiver; with \<^verbatim>\<open>templateReferences = "implicit"\<close> nothing is
  reported.
\<close>

theorem safe_directive_safe_global_counterexample:
  "PropertyReadWithParent.name (mkRead ''$event'' ThisReceiver 20 (Some ''ngIfThen''))
     \<notin> set (map VariableAst.name (listener.variables createRuleListener)) \<and>
   PropertyReadWithParent.name (mkRead ''$event'' ThisReceiver 20 (Some ''ngIfThen''))
     \<notin> set (map ReferenceAst.name (templates createRuleListener)) \<and>
   parent_parent_name (mkRead ''$event'' ThisReceiver 20 (Some ''ngIfThen''))
     = Inr (Some ''ngIfThen'') \<and>
   ''ngIfThen'' \<in> set SAFE_STRUCTURAL_DIRECTIVES \<and>
   receiver (mkRead ''$event'' ThisReceiver 20 (Some ''ngIfThen'')) = ThisReceiver \<and>
   templateReferences defaultOptions = Implicit \<and>
   reported createRuleListener
     (PropertyRead oneLine defaultOptions
        (mkRead ''$event'' ThisReceiver 20 (Some ''ngIfThen'')) createRuleListener) = []"
  by (simp add: createRuleListener_def mkRead_def parent_parent_name_def defaultOptions_def
      SAFE_STRUCTURAL_DIRECTIVES_def PropertyRead_def SAFE_GLOBALS_def
      isImplicitReceiver_def isExplicitReceiver_def)

text \<open>
  C7, amended. For every property read whose name is in neither registry and is not a
  safe global, and whose ancestor two levels up has a name in the list of safe structural
  directives, the \<^verbatim>\<open>templateReferences\<close> policy is applied: with
  \<^verbatim>\<open>templateReferences = "implicit"\<close> and the receiver \<^verbatim>\<open>this\<close> the visitor reports
  \<^verbatim>\<open>implicitThisTemplateReferences\<close>, with \<^verbatim>\<open>"explicit"\<close> and an implicit receiver
  \<^verbatim>\<open>explicitThisTemplateReferences\<close>, and nothing otherwise.
\<close>

theorem safe_directive_policy:
  assumes "PropertyReadWithParent.name node \<notin> set (map VariableAst.name (listener.variables st))"
    and "PropertyReadWithParent.name node \<notin> set (map ReferenceAst.name (templates st))"
    and "PropertyReadWithParent.name node \<notin> set SAFE_GLOBALS"
    and "parent_parent_name node = Inr (Some d)"
    and "d \<in> set SAFE_STRUCTURAL_DIRECTIVES"
  shows "(\<exists>st'. PropertyRead sc opts node st = Inr st') \<and>
    map messageId (reported st (PropertyRead sc opts node st)) =
      (if templateReferences opts = Explicit \<and> receiver node = ImplicitReceiver
       then [ExplicitThisTemplateReferences]
       else if templateReferences opts = Implicit \<and> receiver node = ThisReceiver
       then [ImplicitThisTemplateReferences]
       else [])"
  using assms
  by (cases "templateReferences opts"; cases "receiver node")
     (simp_all add: PropertyRead_def isImplicitReceiver_def isExplicitReceiver_def
        array_includes_def)

text \<open>Scenario C of the spec: \<^verbatim>\<open>*ngIf="cond; then this.tpl"\<close> under the default options.\<close>

theorem safe_directive_policy_witness:
  "parent_parent_name (mkRead ''tpl'' ThisReceiver 20 (Some ''ngIfThen''))
     = Inr (Some ''ngIfThen'') \<and>
   ''ngIfThen'' \<in> set SAFE_STRUCTURAL_DIRECTIVES \<and>
   map messageId (reported createRuleListener
     (PropertyRead oneLine defaultOptions
        (mkRead ''tpl'' ThisReceiver 20 (Some ''ngIfThen'')) createRuleListener))
     = [ImplicitThisTemplateReferences]"
proof -
  let ?node = "mkRead ''tpl'' ThisReceiver 20 (Some ''ngIfThen'')"
  have h1: "PropertyReadWithParent.name ?node
              \<notin> set (map VariableAst.name (listener.variables createRuleListener))"
    by (simp add: createRuleListener_def)
  have h2: "PropertyReadWithParent.name ?node
              \<notin> set (map ReferenceAst.name (templates createRuleListener))"
    by (simp add: createRuleListener_def)
  have h3: "PropertyReadWithParent.name ?node \<notin> set SAFE_GLOBALS"
    by (simp add: mkRead_def SAFE_GLOBALS_def)
  have h4: "parent_parent_name ?node = Inr (Some ''ngIfThen'')"
    by (simp add: mkRead_def parent_parent_name_def)
  have h5: "''ngIfThen'' \<in> set SAFE_STRUCTURAL_DIRECTIVES"
    by (simp add: SAFE_STRUCTURAL_DIRECTIVES_def)
  have c: "templateReferences defaultOptions = Implicit" "receiver ?node = ThisReceiver"
    by (simp_all add: defaultOptions_def mkRead_def)
  from safe_directive_policy [OF h1 h2 h3 h4 h5, of oneLine defaultOptions] c
  have "map messageId (reported createRuleListener
          (PropertyRead oneLine defaultOptions ?node createRuleListener))
        = [ImplicitThisTemplateReferences]"
    by simp
  with h4 h5 show ?thesis by blast
qed

subsection \<open>Missing ancestors\<close>

text \<open>
  C2, as stated, fails: \<^verbatim>\<open>node.parent.parent.name\<close> is read without a guard. A read
  without parent whose name is in neither registry makes the visitor throw.
\<close>

theorem missing_parent_counterexample:
  "PropertyReadWithParent.parent orphanRead = None \<and>
   PropertyRead oneLine defaultOptions orphanRead createRuleListener = Inl TypeError"
  by (simp add: orphanRead_def PropertyRead_def createRuleListener_def SAFE_GLOBALS_def
      parent_parent_name_def isImplicitReceiver_def isExplicitReceiver_def)

text \<open>
  C2, amended. Take a property read with an implicit or explicit receiver whose name is not
  a safe global and is in neither registry. If its ancestor two levels up exists and has
  no name, the read does not match the list of safe structural directives and falls
  through to the plain-property tier: the visitor does not throw, and the option
  \<^verbatim>\<open>properties\<close> and the receiver decide what is reported. If the parent, or the parent
  of the parent, is missing, the visitor throws a \<^verbatim>\<open>TypeError\<close>.
\<close>

theorem ancestor_two_levels_up:
  assumes "receiver node \<noteq> OtherReceiver"
    and "PropertyReadWithParent.name node \<notin> set SAFE_GLOBALS"
    and "PropertyReadWithParent.name node \<notin> set (map VariableAst.name (listener.variables st))"
    and "PropertyReadWithParent.name node \<notin> set (map ReferenceAst.name (templates st))"
  shows "(PropertyReadWithParent.parent node = None \<longrightarrow>
            PropertyRead sc opts node st = Inl TypeError) \<and>
         (\<forall>p. PropertyReadWithParent.parent node = Some p \<and> WithParent.parent p = None \<longrightarrow>
            PropertyRead sc opts node st = Inl TypeError) \<and>
         (\<forall>p g. PropertyReadWithParent.parent node = Some p \<and> WithParent.parent p = Some g \<and>
                Named.name g = None \<longrightarrow>
            (\<exists>st'. PropertyRead sc opts node st = Inr st') \<and>
            map messageId (reported st (PropertyRead sc opts node st)) =
              (if properties opts = Explicit \<and> receiver node = ImplicitReceiver
               then [ExplicitThisProperties]
               else if properties opts = Implicit \<and> receiver node = ThisReceiver
               then [ImplicitThisProperties]
               else []))"
  using assms
  by (cases "properties opts"; cases "receiver node")
     (auto simp: PropertyRead_def isImplicitReceiver_def isExplicitReceiver_def
        array_includes_def parent_parent_name_def)

text \<open>Scenario B of the spec, in an interpolation, and the two reads with a missing link.\<close>

theorem ancestor_two_levels_up_witness:
  "map messageId (reported createRuleListener
     (PropertyRead oneLine defaultOptions (mkRead ''title'' ImplicitReceiver 3 None)
        createRuleListener)) = [ExplicitThisProperties] \<and>
   PropertyRead oneLine defaultOptions halfOrphanRead createRuleListener = Inl TypeError"
proof -
  let ?node = "mkRead ''title'' ImplicitReceiver 3 None"
  have a1: "receiver ?node \<noteq> OtherReceiver"
    and a2: "PropertyReadWithParent.name ?node \<notin> set SAFE_GLOBALS"
    and a3: "PropertyReadWithParent.name ?node
               \<notin> set (map VariableAst.name (listener.variables createRuleListener))"
    and a4: "PropertyReadWithParent.name ?node
               \<notin> set (map ReferenceAst.name (templates createRuleListener))"
    by (simp_all add: mkRead_def SAFE_GLOBALS_def createRuleListener_def)
  have a5: "PropertyReadWithParent.parent ?node
              = Some \<lparr>WithParent.parent = Some \<lparr>Named.name = None\<rparr>\<rparr>
            \<and> WithParent.parent \<lparr>WithParent.parent = Some \<lparr>Named.name = None\<rparr>\<rparr>
              = Some \<lparr>Named.name = None\<rparr>
            \<and> Named.name \<lparr>Named.name = None\<rparr> = None"
    by (simp add: mkRead_def)
  have c: "properties defaultOptions = Explicit" "receiver ?node = ImplicitReceiver"
    by (simp_all add: defaultOptions_def mkRead_def)
  from ancestor_two_levels_up [OF a1 a2 a3 a4, of oneLine defaultOptions] a5 c
  have r1: "map messageId (reported createRuleListener
              (PropertyRead oneLine defaultOptions ?node createRuleListener))
            = [ExplicitThisProperties]"
    by (metis (no_types, lifting))
  have b1: "receiver halfOrphanRead \<noteq> OtherReceiver"
    and b2: "PropertyReadWithParent.name halfOrphanRead \<notin> set SAFE_GLOBALS"
    and b3: "PropertyReadWithParent.name halfOrphanRead
               \<notin> set (map VariableAst.name (listener.variables createRuleListener))"
    and b4: "PropertyReadWithParent.name halfOrphanRead
               \<notin> set (map ReferenceAst.name (templates createRuleListener))"
    by (simp_all add: halfOrphanRead_def SAFE_GLOBALS_def createRuleListener_def)
  have b5: "PropertyReadWithParent.parent halfOrphanRead = Some \<lparr>WithParent.parent = None\<rparr>
            \<and> WithParent.parent \<lparr>WithParent.parent = None\<rparr> = None"
    by (simp add: halfOrphanRead_def)
  from ancestor_two_levels_up [OF b1 b2 b3 b4, of oneLine defaultOptions] b5
  have r2: "PropertyRead oneLine defaultOptions halfOrphanRead createRuleListener
              = Inl TypeError"
    by blast
  from r1 r2 show ?thesis by blast
qed

subsection \<open>The fix\<close>

text \<open>
  C8. Let the host's position services be inverse to each other at the start offset of
  the read. Then every report that the visitor makes for the read carries one of two
  fixes. For an implicit receiver the report has an explicit kind and the fix inserts
  \<^verbatim>\<open>this.\<close> before the empty range at the start offset. For the receiver \<^verbatim>\<open>this\<close> the
  report has an implicit kind and the fix replaces the range from the start offset to the
  start offset plus the length of \<^verbatim>\<open>this.\<close> by the empty text.
\<close>

theorem fix_shapes:
  assumes "getIndexFromLoc sc (getLocFromIndex sc (start (sourceSpan node)))
             = start (sourceSpan node)"
    and "r \<in> set (reported st (PropertyRead sc opts node st))"
  shows "(receiver node = ImplicitReceiver \<and>
          messageId r \<in> {ExplicitThisProperties, ExplicitThisVariables,
                          ExplicitThisTemplateReferences} \<and>
          fix' r = InsertTextBeforeRange
                     (start (sourceSpan node), start (sourceSpan node)) ''this.'')
       \<or> (receiver node = ThisReceiver \<and>
          messageId r \<in> {ImplicitThisProperties, ImplicitThisVariables,
                          ImplicitThisTemplateReferences} \<and>
          fix' r = ReplaceTextRange
                     (start (sourceSpan node), start (sourceSpan node) + length ''this.'') '''')"
proof -
  consider "PropertyRead sc opts node st = Inl TypeError"
    | "PropertyRead sc opts node st = Inr st"
    | m where "receiver node = ImplicitReceiver"
        "m \<in> {ExplicitThisProperties, ExplicitThisVariables, ExplicitThisTemplateReferences}"
        "PropertyRead sc opts node st = Inr (reportError sc True m node st)"
    | m where "receiver node = ThisReceiver"
        "m \<in> {ImplicitThisProperties, ImplicitThisVariables, ImplicitThisTemplateReferences}"
        "PropertyRead sc opts node st = Inr (reportError sc False m node st)"
    using PropertyRead_reports [of sc opts node st] by blast
  then show ?thesis
  proof cases
    case 1 with assms(2) show ?thesis by simp
  next
    case 2 with assms(2) show ?thesis by simp
  next
    case 3
    with assms show ?thesis by (auto simp: reported_reportError_eq)
  next
    case 4
    with assms show ?thesis by (auto simp: reported_reportError_eq)
  qed
qed

text \<open>Scenario A of the spec: the fix removes the five characters of \<^verbatim>\<open>this.\<close>.\<close>

theorem fix_shapes_witness:
  "getIndexFromLoc oneLine (getLocFromIndex oneLine 3) = 3 \<and>
   map fix' (reported loopItem
     (PropertyRead oneLine defaultOptions (mkRead ''item'' ThisReceiver 3 None) loopItem))
     = [ReplaceTextRange (3, 8) '''']"
proof -
  let ?node = "mkRead ''item'' ThisReceiver 3 None"
  let ?rs = "reported loopItem (PropertyRead oneLine defaultOptions ?node loopItem)"
  have h1: "getIndexFromLoc oneLine (getLocFromIndex oneLine (start (sourceSpan ?node)))
              = start (sourceSpan ?node)"
    by (simp add: oneLine_def)
  have s: "start (sourceSpan ?node) = 3" "receiver ?node \<noteq> ImplicitReceiver"
    by (simp_all add: mkRead_def)
  have "length ?rs = 1"
    by (simp add: loopItem_def Template_def createRuleListener_def mkRead_def
        PropertyRead_def SAFE_GLOBALS_def defaultOptions_def isImplicitReceiver_def
        isExplicitReceiver_def reported_def reportError_def Let_def)
  then obtain r where rs: "?rs = [r]"
    by (cases ?rs) simp_all
  then have h2: "r \<in> set ?rs" by simp
  from fix_shapes [OF h1 h2] s have "fix' r = ReplaceTextRange (3, 8) ''''"
    by simp
  with rs h1 s show ?thesis by simp
qed

subsection \<open>The registries are only extended\<close>

text \<open>
  C9. A property-read visit leaves both registries as they were. A template visit and an
  element visit extend them at the end. Hence along every traversal that ends without
  exception the registries at the start are prefixes of the registries at the end.
\<close>

theorem registries_only_grow:
  "(PropertyRead sc opts r st = Inr st1 \<longrightarrow>
      listener.variables st1 = listener.variables st \<and> templates st1 = templates st) \<and>
   prefix (listener.variables st) (listener.variables (Template t st)) \<and>
   prefix (templates st) (templates (Template t st)) \<and>
   prefix (listener.variables st) (listener.variables (Element e st)) \<and>
   prefix (templates st) (templates (Element e st)) \<and>
   (traverse sc opts ns st = Inr st2 \<longrightarrow>
      prefix (listener.variables st) (listener.variables st2) \<and>
      prefix (templates st) (templates st2))"
  using PropertyRead_registries [of sc opts r st st1] traverse_registries [of sc opts ns st st2]
  by (auto simp: Template_def Element_def split: option.splits)

theorem registries_only_grow_witness:
  "PropertyRead oneLine defaultOptions (mkRead ''item'' ThisReceiver 3 None) loopItem
     = Inr (reportError oneLine False ImplicitThisVariables
              (mkRead ''item'' ThisReceiver 3 None) loopItem) \<and>
   listener.variables (reportError oneLine False ImplicitThisVariables
              (mkRead ''item'' ThisReceiver 3 None) loopItem) = listener.variables loopItem \<and>
   templates (reportError oneLine False ImplicitThisVariables
              (mkRead ''item'' ThisReceiver 3 None) loopItem) = templates loopItem \<and>
   traverse oneLine defaultOptions referenceDeclared loopItem
     = Inr (loopItem\<lparr>templates := [\<lparr>ReferenceAst.name = ''tpl''\<rparr>]\<rparr>) \<and>
   prefix (listener.variables loopItem)
     (listener.variables (loopItem\<lparr>templates := [\<lparr>ReferenceAst.name = ''tpl''\<rparr>]\<rparr>)) \<and>
   prefix (templates loopItem)
     (templates (loopItem\<lparr>templates := [\<lparr>ReferenceAst.name = ''tpl''\<rparr>]\<rparr>))"
proof -
  let ?node = "mkRead ''item'' ThisReceiver 3 None"
  let ?st1 = "reportError oneLine False ImplicitThisVariables ?node loopItem"
  let ?st2 = "loopItem\<lparr>templates := [\<lparr>ReferenceAst.name = ''tpl''\<rparr>]\<rparr>"
  have h1: "PropertyRead oneLine defaultOptions ?node loopItem = Inr ?st1"
    by (simp add: loopItem_def Template_def createRuleListener_def mkRead_def
        PropertyRead_def SAFE_GLOBALS_def defaultOptions_def isImplicitReceiver_def
        isExplicitReceiver_def)
  have h2: "traverse oneLine defaultOptions referenceDeclared loopItem = Inr ?st2"
    by (simp add: referenceDeclared_def loopItem_def Template_def createRuleListener_def)
  from registries_only_grow [of oneLine defaultOptions ?node loopItem ?st1 _ _
      referenceDeclared ?st2] h1 h2
  show ?thesis by blast
qed

subsection \<open>Determinism\<close>

text \<open>
  C10. Two runs of the rule over the same nodes, the same source text and the same
  configuration have the same result: the same exception, or the same sequence of reports
  with their kinds, names, locations and fixes. This holds whatever heap each run starts
  on. In particular a run that starts on the heap that an earlier run of the same input
  left, where the arrays of the earlier run still hold its names, reports what the earlier
  run reported: each run allocates its own two arrays and reads no others.
\<close>

theorem rule_runs_deterministic:
  "fst (run_rule sc opts nodes h1) = fst (run_rule sc opts nodes h2) \<and>
   fst (run_rule sc opts nodes (snd (run_rule sc opts nodes h))) = fst (run_rule sc opts nodes h)"
  by (simp add: run_rule_lint)

text \<open>
  The first run of \<^verbatim>\<open>forwardReference\<close> leaves an array that holds \<^verbatim>\<open>tpl\<close>. A second run
  that read this array would find \<^verbatim>\<open>tpl\<close> registered at the read and report nothing.
\<close>

theorem rule_runs_deterministic_witness:
  "snd (run_rule oneLine defaultOptions forwardReference [])
     = [VariableArray [], ReferenceArray [\<lparr>ReferenceAst.name = ''tpl''\<rparr>]] \<and>
   (case fst (run_rule oneLine defaultOptions forwardReference []) of
      Inl e \<Rightarrow> [] | Inr rs \<Rightarrow> map messageId rs) = [ExplicitThisProperties] \<and>
   fst (run_rule oneLine defaultOptions forwardReference
          (snd (run_rule oneLine defaultOptions forwardReference [])))
     = fst (run_rule oneLine defaultOptions forwardReference [])"
proof -
  let ?c = "\<lparr>variables_ref = 0, templates_ref = Suc 0\<rparr>"
  let ?read = "mkRead ''tpl'' ImplicitReceiver 14 (Some ''title'')"
  have c: "createRuleListener_heap [] = (?c, [VariableArray [], ReferenceArray []])"
    by (simp add: createRuleListener_heap_def)
  have v: "closure_view ?c [VariableArray [], ReferenceArray []] [] = createRuleListener"
    by (simp add: closure_view_def variables_at_def references_at_def createRuleListener_def)
  have p: "PropertyRead oneLine defaultOptions ?read createRuleListener
             = Inr (reportError oneLine True ExplicitThisProperties ?read createRuleListener)"
    by (simp add: PropertyRead_def mkRead_def SAFE_GLOBALS_def SAFE_STRUCTURAL_DIRECTIVES_def
        isImplicitReceiver_def isExplicitReceiver_def parent_parent_name_def
        array_includes_def defaultOptions_def createRuleListener_def)
  have t: "Template_heap ?c
             \<lparr>EmbeddedTemplateAst.variables = [],
              EmbeddedTemplateAst.references = [\<lparr>ReferenceAst.name = ''tpl''\<rparr>]\<rparr>
             [VariableArray [], ReferenceArray []]
           = [VariableArray [], ReferenceArray [\<lparr>ReferenceAst.name = ''tpl''\<rparr>]]"
    by (simp add: Template_heap_def push_variables_def push_references_def variables_at_def
        references_at_def)
  have r: "run_rule oneLine defaultOptions forwardReference [] =
        (Inr (reports (reportError oneLine True ExplicitThisProperties ?read
                         createRuleListener)),
         [VariableArray [], ReferenceArray [\<lparr>ReferenceAst.name = ''tpl''\<rparr>]])"
    by (simp add: run_rule_def c forwardReference_def referenceDeclared_def
        PropertyRead_heap_def v p t)
  have k: "(case fst (run_rule oneLine defaultOptions forwardReference []) of
      Inl e \<Rightarrow> [] | Inr rs \<Rightarrow> map messageId rs) = [ExplicitThisProperties]"
    by (simp add: r reportError_def Let_def createRuleListener_def)
  have s: "snd (run_rule oneLine defaultOptions forwardReference [])
     = [VariableArray [], ReferenceArray [\<lparr>ReferenceAst.name = ''tpl''\<rparr>]]"
    by (simp add: r)
  from rule_runs_deterministic [of oneLine defaultOptions forwardReference _ _ "[]"]
  have "fst (run_rule oneLine defaultOptions forwardReference
          (snd (run_rule oneLine defaultOptions forwardReference [])))
     = fst (run_rule oneLine defaultOptions forwardReference [])"
    by blast
  with s k show ?thesis by blast
qed

end
